theory Spec2Isabelle
  imports Complex_Main
begin

section \<open>Shared vocabulary of the two collector scripts\<close>

text \<open>
  Both scripts poll a BME280 altitude sensor and drive a servo that opens or closes the
  collector door. The hardware libraries are outside the scripts; each call into them is
  modelled by its outcome, supplied by an environment: the call returns a value or raises.

  Python's exception classes matter to the handlers of the scripts. \<open>RuntimeError\<close> stands
  for that class and its subclasses, \<open>OtherException\<close> for every other subclass of
  \<open>Exception\<close> (\<open>OSError\<close>, \<open>ValueError\<close>, ...) except \<open>UnboundLocalError\<close>, which Python
  raises when a function reads one of its local names before any assignment to it.
  \<open>KeyboardInterrupt\<close> and \<open>SystemExit\<close> derive from \<open>BaseException\<close> only, so
  \<open>except Exception\<close> does not catch them.
\<close>

datatype exn = RuntimeError | OtherException | UnboundLocalError | KeyboardInterrupt | SystemExit

definition is_Exception :: "exn \<Rightarrow> bool" where
  "is_Exception x = (x = RuntimeError \<or> x = OtherException \<or> x = UnboundLocalError)"

datatype 'a outcome = Returns 'a | Raises exn

text \<open>
  What the script does to the outside world, in order: sleeps (seconds), initialisation
  attempts (with their success), altitude reads, and servo commands. \<open>SetAngle a ok\<close> is the
  assignment \<open>collector_servo.angle = a\<close> of \<open>collector_arduino.py\<close>; \<open>ServoPulse d ok\<close> is the
  PWM sequence of \<open>set_servo_angle\<close> in \<open>meteorite_collector.py\<close> with duty cycle \<open>d\<close>; \<open>ok\<close>
  tells whether the hardware call returned (\<open>False\<close>: it raised).
\<close>

datatype event =
    Sleep nat
  | BmeInit bool
  | ServoInit bool
  | ReadAltitude
  | SetAngle real bool
  | ServoPulse real bool
  | PwmStop
  | GpioCleanup

text \<open>
  The module-level constants. The thresholds are read as globals by the loops; they are
  passed as a record here, and \<open>shipped\<close> holds the values written in both files.
\<close>

record config =
  ALTITUDE_OPEN :: real
  ALTITUDE_CLOSE :: real

definition shipped :: config where
  "shipped = \<lparr>ALTITUDE_OPEN = 20000, ALTITUDE_CLOSE = 18000\<rparr>"

definition SERVO_OPEN_ANGLE :: real where
  "SERVO_OPEN_ANGLE = 90"

definition SERVO_CLOSED_ANGLE :: real where
  "SERVO_CLOSED_ANGLE = 0"

text \<open>
  The globals both scripts share: the flag \<open>collector_is_open\<close>, and the effects performed
  so far. A function of a script maps the globals to a result: it returns a value, or an
  exception leaves it; the globals are kept in both cases.
\<close>

record controller =
  collector_is_open :: bool
  effects :: "event list"

datatype ('a, 's) res = Ret 'a 's | Exc exn 's

datatype 's status = Running 's | Returned 's | Uncaught exn 's

definition emit :: "event \<Rightarrow> 'a controller_scheme \<Rightarrow> 'a controller_scheme" where
  "emit ev s = s\<lparr>effects := effects s @ [ev]\<rparr>"

text \<open>
  \<open>time.sleep(secs)\<close> at source line \<open>line\<close>. A sleep returns, unless the environment
  delivers Ctrl-C during it: then \<open>KeyboardInterrupt\<close> is raised there.
\<close>

definition time_sleep ::
  "(nat \<Rightarrow> bool) \<Rightarrow> nat \<Rightarrow> nat \<Rightarrow> 'a controller_scheme \<Rightarrow> (unit, 'a controller_scheme) res" where
  "time_sleep intr line secs s =
     (if intr line then Exc KeyboardInterrupt s else Ret () (emit (Sleep secs) s))"

section \<open>collector_arduino.py\<close>

text \<open>
  A name that is local to a function: unbound until the first assignment, then bound to a
  value, of which only the truth value is kept.
\<close>

datatype local_name = Unbound | Bound bool

record arduino = controller +
  bme280_sensor :: bool
  collector_servo :: bool
  local_collector_servo :: local_name

text \<open>
  The global handles \<open>bme280_sensor\<close> and \<open>collector_servo\<close> are either an object (\<open>True\<close>)
  or \<open>None\<close> (\<open>False\<close>); the script only tests their truth value.

  \<open>main_loop\<close> declares \<open>global collector_is_open, bme280_sensor\<close> (line 103) and assigns
  \<open>collector_servo = None\<close> at line 174. So inside \<open>main_loop\<close> the name \<open>collector_servo\<close>
  is a local of that function, kept in \<open>local_collector_servo\<close>: line 131 reads it, line 174
  binds it. \<open>setup_servo\<close>, \<open>open_collector_door\<close> and \<open>close_collector_door\<close> declare the
  name global and use the global handle.

  One environment per loop iteration; every call site below runs at most once in an
  iteration.
\<close>

record cycle_env =
  bme_init :: "unit outcome"
  bme_probe :: "unit outcome"
  servo_init :: "unit outcome"
  servo_angle :: "unit outcome"
  reinit_close :: "unit outcome"
  altitude :: "real option outcome"
  door_write :: "unit outcome"
  sleep_interrupted :: "nat \<Rightarrow> bool"

text \<open>
  \<open>bme_init\<close>: the creation of the bus and sensor objects in \<open>initialize_bme280\<close>
  (lines 40-41);
  \<open>bme_probe\<close>: the setting and the three readings of lines 42-47;
  \<open>servo_init\<close>: the creation of the PWM and servo objects in \<open>setup_servo\<close> (lines 61-64);
  \<open>servo_angle\<close>: the angle assignment of \<open>setup_servo\<close> at line 65;
  \<open>reinit_close\<close>: the angle assignment of the \<open>close_collector_door()\<close> that follows a
  successful \<open>setup_servo()\<close> (lines 115 and 140);
  \<open>altitude\<close>: \<open>bme280_sensor.altitude\<close> at line 144;
  \<open>door_write\<close>: the angle assignment of the door call at line 154 or 157.
\<close>

text \<open>
  \<open>initialize_bme280\<close>: the sensor object is created and the global handle is bound
  (lines 40-41), then the sensor is set up and read (lines 42-47). The handler unsets the
  handle.
\<close>

definition initialize_bme280 ::
  "unit outcome \<Rightarrow> unit outcome \<Rightarrow> arduino \<Rightarrow> (bool, arduino) res" where
  "initialize_bme280 created probed s =
     (case created of
        Raises x \<Rightarrow>
          if is_Exception x
          then Ret False (emit (BmeInit False) (s\<lparr>bme280_sensor := False\<rparr>))
          else Exc x (emit (BmeInit False) s)
      | Returns _ \<Rightarrow>
          (case probed of
             Returns _ \<Rightarrow> Ret True (emit (BmeInit True) (s\<lparr>bme280_sensor := True\<rparr>))
           | Raises x \<Rightarrow>
               if is_Exception x
               then Ret False (emit (BmeInit False) (s\<lparr>bme280_sensor := False\<rparr>))
               else Exc x (emit (BmeInit False) (s\<lparr>bme280_sensor := True\<rparr>))))"

text \<open>
  \<open>setup_servo\<close>: the objects are created and the global handle is bound (lines 61-64),
  then the servo is driven to the closed angle (line 65). The handler unsets the handle.
\<close>

definition setup_servo :: "unit outcome \<Rightarrow> unit outcome \<Rightarrow> arduino \<Rightarrow> (bool, arduino) res" where
  "setup_servo created angle_set s =
     (case created of
        Raises x \<Rightarrow>
          if is_Exception x
          then Ret False (emit (ServoInit False) (s\<lparr>collector_servo := False\<rparr>))
          else Exc x (emit (ServoInit False) s)
      | Returns _ \<Rightarrow>
          (case angle_set of
             Returns _ \<Rightarrow>
               Ret True (emit (SetAngle SERVO_CLOSED_ANGLE True)
                 (emit (ServoInit True) (s\<lparr>collector_servo := True\<rparr>)))
           | Raises x \<Rightarrow>
               if is_Exception x
               then Ret False (emit (SetAngle SERVO_CLOSED_ANGLE False)
                 (emit (ServoInit True) (s\<lparr>collector_servo := False\<rparr>)))
               else Exc x (emit (SetAngle SERVO_CLOSED_ANGLE False)
                 (emit (ServoInit True) (s\<lparr>collector_servo := True\<rparr>)))))"

definition open_collector_door :: "unit outcome \<Rightarrow> arduino \<Rightarrow> (unit, arduino) res" where
  "open_collector_door out s =
     (if collector_servo s then
        (case out of
           Returns _ \<Rightarrow>
             Ret () (emit (SetAngle SERVO_OPEN_ANGLE True) s\<lparr>collector_is_open := True\<rparr>)
         | Raises x \<Rightarrow>
             if is_Exception x then Ret () (emit (SetAngle SERVO_OPEN_ANGLE False) s)
             else Exc x (emit (SetAngle SERVO_OPEN_ANGLE False) s))
      else Ret () s)"

definition close_collector_door :: "unit outcome \<Rightarrow> arduino \<Rightarrow> (unit, arduino) res" where
  "close_collector_door out s =
     (if collector_servo s then
        (case out of
           Returns _ \<Rightarrow>
             Ret () (emit (SetAngle SERVO_CLOSED_ANGLE True) s\<lparr>collector_is_open := False\<rparr>)
         | Raises x \<Rightarrow>
             if is_Exception x then Ret () (emit (SetAngle SERVO_CLOSED_ANGLE False) s)
             else Exc x (emit (SetAngle SERVO_CLOSED_ANGLE False) s))
      else Ret () s)"

text \<open>Lines 123-129: the sensor handle is missing. The result tells whether to go on.\<close>

definition reinit_sensor :: "cycle_env \<Rightarrow> arduino \<Rightarrow> (bool, arduino) res" where
  "reinit_sensor e s =
     (if \<not> bme280_sensor s then
        (case time_sleep (sleep_interrupted e) 125 5 s of
           Exc x s1 \<Rightarrow> Exc x s1
         | Ret _ s1 \<Rightarrow>
             (case initialize_bme280 (bme_init e) (bme_probe e) s1 of
                Exc x s2 \<Rightarrow> Exc x s2
              | Ret True s2 \<Rightarrow> Ret True s2
              | Ret False s2 \<Rightarrow>
                  (case time_sleep (sleep_interrupted e) 128 25 s2 of
                     Exc x s3 \<Rightarrow> Exc x s3
                   | Ret _ s3 \<Rightarrow> Ret False s3)))
      else Ret True s)"

text \<open>
  Lines 131-140. The test at line 131 reads the local name: reading it while it is
  unbound raises \<open>UnboundLocalError\<close>, outside any \<open>try\<close>.
\<close>

definition reinit_servo :: "cycle_env \<Rightarrow> arduino \<Rightarrow> (bool, arduino) res" where
  "reinit_servo e s =
     (case local_collector_servo s of
        Unbound \<Rightarrow> Exc UnboundLocalError s
      | Bound truthy \<Rightarrow>
          if \<not> truthy then
            (case time_sleep (sleep_interrupted e) 133 5 s of
               Exc x s1 \<Rightarrow> Exc x s1
             | Ret _ s1 \<Rightarrow>
                 (case setup_servo (servo_init e) (servo_angle e) s1 of
                    Exc x s2 \<Rightarrow> Exc x s2
                  | Ret False s2 \<Rightarrow>
                      (case time_sleep (sleep_interrupted e) 136 25 s2 of
                         Exc x s3 \<Rightarrow> Exc x s3
                       | Ret _ s3 \<Rightarrow> Ret False s3)
                  | Ret True s2 \<Rightarrow>
                      (case close_collector_door (reinit_close e) s2 of
                         Exc x s3 \<Rightarrow> Exc x s3
                       | Ret _ s3 \<Rightarrow> Ret True s3)))
          else Ret True s)"

text \<open>Lines 152-160: the comparison of the reading with the thresholds.\<close>

definition evaluate :: "config \<Rightarrow> cycle_env \<Rightarrow> real \<Rightarrow> arduino \<Rightarrow> (unit, arduino) res" where
  "evaluate cfg e current_altitude s =
     (if \<not> collector_is_open s \<and> current_altitude > ALTITUDE_OPEN cfg
      then open_collector_door (door_write e) s
      else if collector_is_open s \<and> current_altitude < ALTITUDE_CLOSE cfg
      then close_collector_door (door_write e) s
      else Ret () s)"

text \<open>
  Lines 144-160, the body of the \<open>try\<close>. The result is \<open>True\<close> when the body left through
  \<open>continue\<close> (the reading was \<open>None\<close>).
\<close>

definition try_body :: "config \<Rightarrow> cycle_env \<Rightarrow> arduino \<Rightarrow> (bool, arduino) res" where
  "try_body cfg e s =
     (case altitude e of
        Raises x \<Rightarrow> Exc x (emit ReadAltitude s)
      | Returns None \<Rightarrow>
          (case time_sleep (sleep_interrupted e) 147 10 (emit ReadAltitude s) of
             Exc x s1 \<Rightarrow> Exc x s1
           | Ret _ s1 \<Rightarrow> Ret True s1)
      | Returns (Some current_altitude) \<Rightarrow>
          (case evaluate cfg e current_altitude (emit ReadAltitude s) of
             Exc x s1 \<Rightarrow> Exc x s1
           | Ret _ s1 \<Rightarrow> Ret False s1))"

text \<open>
  Lines 143-175: the \<open>try\<close> with its two handlers. Line 168 unsets the global sensor
  handle; line 173 does the same and line 174 binds the local name to \<open>None\<close>.
\<close>

definition try_except :: "config \<Rightarrow> cycle_env \<Rightarrow> arduino \<Rightarrow> (bool, arduino) res" where
  "try_except cfg e s =
     (case try_body cfg e s of
        Ret c s1 \<Rightarrow> Ret c s1
      | Exc x s1 \<Rightarrow>
          if x = RuntimeError then
            (case time_sleep (sleep_interrupted e) 166 5 s1 of
               Exc y s2 \<Rightarrow> Exc y s2
             | Ret _ s2 \<Rightarrow> Ret False (s2\<lparr>bme280_sensor := False\<rparr>))
          else if is_Exception x then
            (case time_sleep (sleep_interrupted e) 175 10
                    (s1\<lparr>bme280_sensor := False, local_collector_servo := Bound False\<rparr>) of
               Exc y s2 \<Rightarrow> Exc y s2
             | Ret _ s2 \<Rightarrow> Ret False s2)
          else Exc x s1)"

text \<open>Lines 122-177: one iteration of \<open>while True\<close>.\<close>

definition loop_body :: "config \<Rightarrow> cycle_env \<Rightarrow> arduino \<Rightarrow> arduino status" where
  "loop_body cfg e s =
     (case reinit_sensor e s of
        Exc x s1 \<Rightarrow> Uncaught x s1
      | Ret False s1 \<Rightarrow> Running s1
      | Ret True s1 \<Rightarrow>
          (case reinit_servo e s1 of
             Exc x s2 \<Rightarrow> Uncaught x s2
           | Ret False s2 \<Rightarrow> Running s2
           | Ret True s2 \<Rightarrow>
               (case try_except cfg e s2 of
                  Exc x s3 \<Rightarrow> Uncaught x s3
                | Ret True s3 \<Rightarrow> Running s3
                | Ret False s3 \<Rightarrow>
                    (case time_sleep (sleep_interrupted e) 177 15 s3 of
                       Exc x s4 \<Rightarrow> Uncaught x s4
                     | Ret _ s4 \<Rightarrow> Running s4))))"

text \<open>
  The loop, run on the environments of its first iterations. \<open>Running s\<close> says that all of
  them were consumed and the loop goes on from \<open>s\<close>; any other status says that the loop
  was left.
\<close>

fun while_true :: "config \<Rightarrow> cycle_env list \<Rightarrow> arduino \<Rightarrow> arduino status" where
  "while_true cfg [] s = Running s"
| "while_true cfg (e # es) s =
     (case loop_body cfg e s of
        Running s1 \<Rightarrow> while_true cfg es s1
      | Returned s1 \<Rightarrow> Returned s1
      | Uncaught x s1 \<Rightarrow> Uncaught x s1)"

text \<open>Lines 105-115: the initialisation before the loop.\<close>

definition startup :: "cycle_env \<Rightarrow> arduino \<Rightarrow> (unit, arduino) res" where
  "startup e s =
     (case initialize_bme280 (bme_init e) (bme_probe e) s of
        Exc x s1 \<Rightarrow> Exc x s1
      | Ret _ s1 \<Rightarrow>
          (case setup_servo (servo_init e) (servo_angle e) s1 of
             Exc x s2 \<Rightarrow> Exc x s2
           | Ret False s2 \<Rightarrow> Ret () s2
           | Ret True s2 \<Rightarrow> close_collector_door (reinit_close e) s2))"

text \<open>
  The module's globals as lines 31-33 set them, and the local name of a call of
  \<open>main_loop\<close> that has just started.
\<close>

definition module_globals :: arduino where
  "module_globals =
     \<lparr>collector_is_open = False, effects = [], bme280_sensor = False, collector_servo = False,
      local_collector_servo = Unbound\<rparr>"

definition main_loop :: "config \<Rightarrow> cycle_env \<Rightarrow> cycle_env list \<Rightarrow> arduino status" where
  "main_loop cfg e0 es =
     (case startup e0 module_globals of
        Exc x s \<Rightarrow> Uncaught x s
      | Ret _ s \<Rightarrow> while_true cfg es s)"

section \<open>meteorite_collector.py\<close>

record rpi = controller +
  pwm :: bool

text \<open>
  \<open>pwm\<close> is the PWM object (\<open>True\<close>) or \<open>None\<close> (\<open>False\<close>). The sensor handle is a local
  variable of \<open>main\<close>, set once before the loop.

  \<open>sensor_init\<close>: the hardware calls in the \<open>try\<close> of \<open>initialize_bme280\<close>;
  \<open>gpio_setup\<close>: lines 49-52 of \<open>setup_servo\<close> (GPIO mode and pin, the PWM object);
  \<open>pwm_start\<close>: \<open>pwm.start(0)\<close> at line 53;
  \<open>pwm_write\<close>: the PWM writes of \<open>set_servo_angle\<close>, lines 85-87, with the pause between
  them: it returns when all of them returned;
  \<open>pwm_idle\<close>: the write at line 58;
  \<open>altitude_read\<close>: \<open>bme280.altitude\<close> at line 121;
  \<open>ctrl_c\<close>: the sleeps during which Ctrl-C arrives, by source line.
\<close>

record pi_env =
  sensor_init :: "unit outcome"
  gpio_setup :: "unit outcome"
  pwm_start :: "unit outcome"
  pwm_write :: "unit outcome"
  pwm_idle :: "unit outcome"
  altitude_read :: "real option outcome"
  ctrl_c :: "nat \<Rightarrow> bool"

definition initialize_bme280_rpi :: "unit outcome \<Rightarrow> rpi \<Rightarrow> (bool, rpi) res" where
  "initialize_bme280_rpi out s =
     (case out of
        Returns _ \<Rightarrow> Ret True (emit (BmeInit True) s)
      | Raises x \<Rightarrow>
          if is_Exception x then Ret False (emit (BmeInit False) s)
          else Exc x (emit (BmeInit False) s))"

definition angle_to_duty_cycle :: "real \<Rightarrow> real" where
  "angle_to_duty_cycle angle =
     (let angle1 = (if angle < 0 then 0 else angle);
          angle2 = (if angle1 > 180 then 180 else angle1)
      in 2.5 + (angle2 / 180.0) * 10.0)"

definition set_servo_angle :: "pi_env \<Rightarrow> real \<Rightarrow> rpi \<Rightarrow> (unit, rpi) res" where
  "set_servo_angle e angle s =
     (if \<not> pwm s then Ret () s
      else
        (let duty = angle_to_duty_cycle angle in
         case pwm_write e of
           Raises x \<Rightarrow> Exc x (emit (ServoPulse duty False) s)
         | Returns _ \<Rightarrow> Ret () (emit (ServoPulse duty True) s)))"

definition open_collector :: "pi_env \<Rightarrow> rpi \<Rightarrow> (unit, rpi) res" where
  "open_collector e s =
     (case set_servo_angle e SERVO_OPEN_ANGLE s of
        Exc x s1 \<Rightarrow> Exc x s1
      | Ret _ s1 \<Rightarrow> Ret () (s1\<lparr>collector_is_open := True\<rparr>))"

definition close_collector :: "pi_env \<Rightarrow> rpi \<Rightarrow> (unit, rpi) res" where
  "close_collector e s =
     (case set_servo_angle e SERVO_CLOSED_ANGLE s of
        Exc x s1 \<Rightarrow> Exc x s1
      | Ret _ s1 \<Rightarrow> Ret () (s1\<lparr>collector_is_open := False\<rparr>))"

text \<open>Lines 48-58, the \<open>try\<close> of \<open>setup_servo\<close>.\<close>

definition setup_servo_body :: "pi_env \<Rightarrow> rpi \<Rightarrow> (unit, rpi) res" where
  "setup_servo_body e s =
     (case gpio_setup e of
        Raises x \<Rightarrow> Exc x (emit (ServoInit False) s)
      | Returns _ \<Rightarrow>
          (case pwm_start e of
             Raises x \<Rightarrow> Exc x (emit (ServoInit False) (s\<lparr>pwm := True\<rparr>))
           | Returns _ \<Rightarrow>
               (case set_servo_angle e SERVO_CLOSED_ANGLE
                       (emit (ServoInit True) (s\<lparr>pwm := True\<rparr>)) of
                  Exc x s1 \<Rightarrow> Exc x s1
                | Ret _ s1 \<Rightarrow>
                    (case time_sleep (ctrl_c e) 57 1 s1 of
                       Exc x s2 \<Rightarrow> Exc x s2
                     | Ret _ s2 \<Rightarrow>
                         (case pwm_idle e of
                            Raises x \<Rightarrow> Exc x s2
                          | Returns _ \<Rightarrow> Ret () s2)))))"

text \<open>The handler of \<open>setup_servo\<close> cleans up and calls \<open>exit()\<close>, which raises \<open>SystemExit\<close>.\<close>

definition setup_servo_rpi :: "pi_env \<Rightarrow> rpi \<Rightarrow> (unit, rpi) res" where
  "setup_servo_rpi e s =
     (case setup_servo_body e s of
        Ret u s1 \<Rightarrow> Ret u s1
      | Exc x s1 \<Rightarrow>
          if is_Exception x then Exc SystemExit (emit GpioCleanup s1) else Exc x s1)"

text \<open>Lines 129-137.\<close>

definition evaluate_rpi :: "config \<Rightarrow> pi_env \<Rightarrow> real \<Rightarrow> rpi \<Rightarrow> (unit, rpi) res" where
  "evaluate_rpi cfg e current_altitude s =
     (if \<not> collector_is_open s \<and> current_altitude > ALTITUDE_OPEN cfg
      then open_collector e s
      else if collector_is_open s \<and> current_altitude < ALTITUDE_CLOSE cfg
      then close_collector e s
      else Ret () s)"

text \<open>Lines 121-137, the body of the inner \<open>try\<close>; \<open>True\<close> when it left through \<open>continue\<close>.\<close>

definition try_body_rpi :: "config \<Rightarrow> pi_env \<Rightarrow> rpi \<Rightarrow> (bool, rpi) res" where
  "try_body_rpi cfg e s =
     (case altitude_read e of
        Raises x \<Rightarrow> Exc x (emit ReadAltitude s)
      | Returns None \<Rightarrow>
          (case time_sleep (ctrl_c e) 124 10 (emit ReadAltitude s) of
             Exc x s1 \<Rightarrow> Exc x s1
           | Ret _ s1 \<Rightarrow> Ret True s1)
      | Returns (Some current_altitude) \<Rightarrow>
          (case evaluate_rpi cfg e current_altitude (emit ReadAltitude s) of
             Exc x s1 \<Rightarrow> Exc x s1
           | Ret _ s1 \<Rightarrow> Ret False s1))"

text \<open>Lines 120-142: one iteration; the handler at line 139 only prints.\<close>

definition loop_body_rpi :: "config \<Rightarrow> pi_env \<Rightarrow> rpi \<Rightarrow> rpi status" where
  "loop_body_rpi cfg e s =
     (case (case try_body_rpi cfg e s of
              Ret c s1 \<Rightarrow> Ret c s1
            | Exc x s1 \<Rightarrow> if is_Exception x then Ret False s1 else Exc x s1) of
        Exc x s1 \<Rightarrow> Uncaught x s1
      | Ret True s1 \<Rightarrow> Running s1
      | Ret False s1 \<Rightarrow>
          (case time_sleep (ctrl_c e) 142 30 s1 of
             Exc x s2 \<Rightarrow> Uncaught x s2
           | Ret _ s2 \<Rightarrow> Running s2))"

fun while_true_rpi :: "config \<Rightarrow> pi_env list \<Rightarrow> rpi \<Rightarrow> rpi status" where
  "while_true_rpi cfg [] s = Running s"
| "while_true_rpi cfg (e # es) s =
     (case loop_body_rpi cfg e s of
        Running s1 \<Rightarrow> while_true_rpi cfg es s1
      | Returned s1 \<Rightarrow> Returned s1
      | Uncaught x s1 \<Rightarrow> Uncaught x s1)"

text \<open>Lines 146-151, the \<open>finally\<close> of \<open>main\<close>.\<close>

definition cleanup :: "rpi \<Rightarrow> rpi" where
  "cleanup s = emit GpioCleanup (if pwm s then emit PwmStop s else s)"

text \<open>Lines 118-151: the loop inside \<open>try\<close> / \<open>except KeyboardInterrupt\<close> / \<open>finally\<close>.\<close>

definition guarded_loop :: "config \<Rightarrow> pi_env list \<Rightarrow> rpi \<Rightarrow> rpi status" where
  "guarded_loop cfg es s =
     (case while_true_rpi cfg es s of
        Running s1 \<Rightarrow> Running s1
      | Returned s1 \<Rightarrow> Returned (cleanup s1)
      | Uncaught x s1 \<Rightarrow>
          if x = KeyboardInterrupt then Returned (cleanup s1) else Uncaught x (cleanup s1))"

definition module_globals_rpi :: rpi where
  "module_globals_rpi = \<lparr>collector_is_open = False, effects = [], pwm = False\<rparr>"

definition main :: "config \<Rightarrow> pi_env \<Rightarrow> pi_env list \<Rightarrow> rpi status" where
  "main cfg e0 es =
     (case initialize_bme280_rpi (sensor_init e0) module_globals_rpi of
        Exc x s \<Rightarrow> Uncaught x s
      | Ret False s \<Rightarrow> Returned s
      | Ret True s \<Rightarrow>
          (case setup_servo_rpi e0 s of
             Exc x s1 \<Rightarrow> Uncaught x s1
           | Ret _ s1 \<Rightarrow> guarded_loop cfg es s1))"

section \<open>Observing a run\<close>

text \<open>
  The servo commands among the effects, the globals a status or result carries, and the
  transition rule in the words of the specification: Open when the door is closed and the
  reading is above the open threshold, Close when it is open and the reading is below the
  close threshold, nothing otherwise.
\<close>

fun is_command :: "event \<Rightarrow> bool" where
  "is_command (SetAngle a ok) = True"
| "is_command (ServoPulse d ok) = True"
| "is_command ev = False"

definition door_commands :: "event list \<Rightarrow> event list" where
  "door_commands evs = filter is_command evs"

fun state_of :: "'s status \<Rightarrow> 's" where
  "state_of (Running s) = s"
| "state_of (Returned s) = s"
| "state_of (Uncaught x s) = s"

datatype command = Open | Close

definition hysteresis_rule :: "config \<Rightarrow> bool \<Rightarrow> real \<Rightarrow> command option" where
  "hysteresis_rule cfg is_open reading =
     (if \<not> is_open \<and> reading > ALTITUDE_OPEN cfg then Some Open
      else if is_open \<and> reading < ALTITUDE_CLOSE cfg then Some Close
      else None)"

fun rule_commands :: "config \<Rightarrow> (command \<Rightarrow> bool \<Rightarrow> event) \<Rightarrow> bool \<Rightarrow> (real \<times> bool) list \<Rightarrow> event list" where
  "rule_commands cfg ev is_open [] = []"
| "rule_commands cfg ev is_open ((reading, ok) # rs) =
     (case hysteresis_rule cfg is_open reading of
        None \<Rightarrow> rule_commands cfg ev is_open rs
      | Some Open \<Rightarrow> ev Open ok # rule_commands cfg ev (if ok then True else is_open) rs
      | Some Close \<Rightarrow> ev Close ok # rule_commands cfg ev (if ok then False else is_open) rs)"

fun pulse_command :: "command \<Rightarrow> bool \<Rightarrow> event" where
  "pulse_command Open ok = ServoPulse (angle_to_duty_cycle SERVO_OPEN_ANGLE) ok"
| "pulse_command Close ok = ServoPulse (angle_to_duty_cycle SERVO_CLOSED_ANGLE) ok"

text \<open>
  Environments in which every device answers: the read returns the given altitude, and the
  command of the iteration succeeds or raises as the flag says.
\<close>

definition reading_env :: "real \<times> bool \<Rightarrow> cycle_env" where
  "reading_env rb =
     \<lparr>bme_init = Returns (), bme_probe = Returns (), servo_init = Returns (),
      servo_angle = Returns (),
      reinit_close = Returns (),
      altitude = Returns (Some (fst rb)),
      door_write = (if snd rb then Returns () else Raises OtherException),
      sleep_interrupted = (\<lambda>line. False)\<rparr>"

definition reading_env_rpi :: "real \<times> bool \<Rightarrow> pi_env" where
  "reading_env_rpi rb =
     \<lparr>sensor_init = Returns (), gpio_setup = Returns (), pwm_start = Returns (),
      pwm_write = (if snd rb then Returns () else Raises OtherException),
      pwm_idle = Returns (),
      altitude_read = Returns (Some (fst rb)),
      ctrl_c = (\<lambda>line. False)\<rparr>"

text \<open>
  The state of \<open>collector_arduino.py\<close> inside a call of \<open>main_loop\<close> in which line 174 has
  not run: the local name is unbound. The state of \<open>meteorite_collector.py\<close> once
  \<open>setup_servo\<close> has returned.
\<close>

definition main_loop_frame :: "bool \<Rightarrow> event list \<Rightarrow> bool \<Rightarrow> bool \<Rightarrow> arduino" where
  "main_loop_frame is_open evs sensor servo =
     \<lparr>collector_is_open = is_open, effects = evs, bme280_sensor = sensor,
      collector_servo = servo, local_collector_servo = Unbound\<rparr>"

definition ready_rpi :: "bool \<Rightarrow> event list \<Rightarrow> rpi" where
  "ready_rpi is_open evs = \<lparr>collector_is_open = is_open, effects = evs, pwm = True\<rparr>"

fun res_state :: "('a, 's) res \<Rightarrow> 's" where
  "res_state (Ret v s) = s"
| "res_state (Exc x s) = s"

definition by_rule :: "config \<Rightarrow> (command \<Rightarrow> bool \<Rightarrow> event) \<Rightarrow> real option outcome \<Rightarrow>
    'a controller_scheme \<Rightarrow> 'a controller_scheme \<Rightarrow> bool" where
  "by_rule cfg ev reading s s' =
     (door_commands (effects s') = door_commands (effects s)
      \<or> (\<exists>r ok. reading = Returns (Some r) \<and>
            (door_commands (effects s') = door_commands (effects s) @ [ev Open ok]
               \<and> \<not> collector_is_open s \<and> r > ALTITUDE_OPEN cfg
             \<or> door_commands (effects s') = door_commands (effects s) @ [ev Close ok]
               \<and> collector_is_open s \<and> r < ALTITUDE_CLOSE cfg)))"

text \<open>
  The flag a successful command asks for, and the flag after a list of effects: each
  successful command sets it to its target, nothing else changes it.
\<close>

fun commanded_target :: "event \<Rightarrow> bool option" where
  "commanded_target (SetAngle a ok) = (if ok then Some (a = SERVO_OPEN_ANGLE) else None)"
| "commanded_target (ServoPulse d ok) =
     (if ok then Some (d = angle_to_duty_cycle SERVO_OPEN_ANGLE) else None)"
| "commanded_target ev = None"

definition last_commanded :: "bool \<Rightarrow> event list \<Rightarrow> bool" where
  "last_commanded is_open evs =
     foldl (\<lambda>b ev. case commanded_target ev of None \<Rightarrow> b | Some target \<Rightarrow> target) is_open evs"

definition tracks :: "'a controller_scheme \<Rightarrow> bool" where
  "tracks s = (collector_is_open s = last_commanded False (effects s))"

definition tracks_rpi :: "rpi \<Rightarrow> bool" where
  "tracks_rpi s = (tracks s \<and> pwm s)"

text \<open>
  An environment without cancellation: every call returns or raises an error of class
  \<open>Exception\<close>, and no sleep is interrupted.
\<close>

definition returns_or_error :: "'a outcome \<Rightarrow> bool" where
  "returns_or_error out = (case out of Returns v \<Rightarrow> True | Raises x \<Rightarrow> is_Exception x)"

definition no_cancellation_rpi :: "pi_env \<Rightarrow> bool" where
  "no_cancellation_rpi e =
     (returns_or_error (pwm_write e) \<and> returns_or_error (altitude_read e)
      \<and> list_all (\<lambda>line. \<not> ctrl_c e line) [124, 142])"

text \<open>The seconds slept among a list of effects.\<close>

fun slept :: "event list \<Rightarrow> nat" where
  "slept [] = 0"
| "slept (Sleep secs # evs) = secs + slept evs"
| "slept (ev # evs) = slept evs"

text \<open>Concrete environments and thresholds used as examples.\<close>

definition unexpected_error_env :: cycle_env where
  "unexpected_error_env = (reading_env (19000, True))\<lparr>altitude := Raises OtherException\<rparr>"

definition failing_env_rpi :: pi_env where
  "failing_env_rpi =
     \<lparr>sensor_init = Returns (), gpio_setup = Returns (), pwm_start = Returns (),
      pwm_write = Raises OtherException, pwm_idle = Returns (),
      altitude_read = Raises RuntimeError, ctrl_c = (\<lambda>line. False)\<rparr>"


definition none_env_rpi :: pi_env where
  "none_env_rpi = (reading_env_rpi (19000, True))\<lparr>altitude_read := Returns None\<rparr>"

definition transient_error_env :: cycle_env where
  "transient_error_env = (reading_env (18500, True))\<lparr>altitude := Raises RuntimeError\<rparr>"

definition reversed_thresholds :: config where
  "reversed_thresholds = \<lparr>ALTITUDE_OPEN = 18000, ALTITUDE_CLOSE = 20000\<rparr>"

definition close_fails_env :: cycle_env where
  "close_fails_env = (reading_env (19000, True))\<lparr>reinit_close := Raises OtherException\<rparr>"

section \<open>Properties\<close>

lemmas rpi_defs =
  loop_body_rpi_def try_body_rpi_def evaluate_rpi_def open_collector_def close_collector_def
  set_servo_angle_def time_sleep_def emit_def is_Exception_def Let_def

subsection \<open>The loop of collector_arduino.py\<close>

text \<open>
  What the lines 123-129 leave untouched, and what one iteration does while the local
  name is unbound: it goes on only when the sensor re-initialisation failed; otherwise the
  read at line 131 raises and the loop is left.
\<close>

lemma reinit_sensor_frame:
  "local_collector_servo (res_state (reinit_sensor e s)) = local_collector_servo s"
  "collector_is_open (res_state (reinit_sensor e s)) = collector_is_open s"
  "collector_servo (res_state (reinit_sensor e s)) = collector_servo s"
  "door_commands (effects (res_state (reinit_sensor e s))) = door_commands (effects s)"
  by (simp_all add: reinit_sensor_def initialize_bme280_def time_sleep_def emit_def
        door_commands_def split: outcome.splits)

lemma loop_body_unbound:
  assumes "local_collector_servo s = Unbound"
  shows "loop_body cfg e s =
     (case reinit_sensor e s of
        Exc x s1 \<Rightarrow> Uncaught x s1
      | Ret go s1 \<Rightarrow> if go then Uncaught UnboundLocalError s1 else Running s1)"
proof (cases "reinit_sensor e s")
  case (Exc x s1)
  then show ?thesis by (simp add: loop_body_def)
next
  case (Ret go s1)
  with reinit_sensor_frame(1)[of e s] assms have "local_collector_servo s1 = Unbound"
    by simp
  then have "reinit_servo e s1 = Exc UnboundLocalError s1"
    by (simp add: reinit_servo_def)
  with Ret show ?thesis by (cases go) (simp_all add: loop_body_def)
qed

lemma loop_body_sensor_set:
  "local_collector_servo s = Unbound \<Longrightarrow> bme280_sensor s \<Longrightarrow>
   loop_body cfg e s = Uncaught UnboundLocalError s"
  by (simp add: loop_body_unbound reinit_sensor_def)

lemma while_true_sensor_set:
  "local_collector_servo s = Unbound \<Longrightarrow> bme280_sensor s \<Longrightarrow>
   while_true cfg (e # es) s = Uncaught UnboundLocalError s"
  by (simp add: loop_body_sensor_set)

lemma loop_body_quiet:
  assumes "local_collector_servo s = Unbound"
  shows "door_commands (effects (state_of (loop_body cfg e s))) = door_commands (effects s)"
    and "local_collector_servo (state_of (loop_body cfg e s)) = Unbound"
    and "collector_is_open (state_of (loop_body cfg e s)) = collector_is_open s"
  using reinit_sensor_frame[of e s] assms
  by (cases "reinit_sensor e s"; simp add: loop_body_unbound)+

lemma while_true_quiet:
  "local_collector_servo s = Unbound \<Longrightarrow>
   door_commands (effects (state_of (while_true cfg es s))) = door_commands (effects s)
   \<and> collector_is_open (state_of (while_true cfg es s)) = collector_is_open s"
proof (induction es arbitrary: s)
  case Nil
  show ?case by simp
next
  case (Cons e es)
  show ?case
  proof (cases "loop_body cfg e s")
    case (Running s1)
    with loop_body_quiet[OF Cons.prems, of cfg e] Cons.IH[of s1] show ?thesis by simp
  next
    case (Returned s1)
    with loop_body_quiet[OF Cons.prems, of cfg e] show ?thesis by simp
  next
    case (Uncaught x s1)
    with loop_body_quiet[OF Cons.prems, of cfg e] show ?thesis by simp
  qed
qed

lemma startup_unbound:
  "local_collector_servo (res_state (startup e module_globals)) = Unbound"
  by (simp add: startup_def initialize_bme280_def setup_servo_def close_collector_door_def
        module_globals_def emit_def split: outcome.splits)

lemma main_loop_quiet:
  "door_commands (effects (state_of (main_loop cfg e0 es)))
     = door_commands (effects (res_state (startup e0 module_globals)))"
proof (cases "startup e0 module_globals")
  case (Exc x s)
  then show ?thesis by (simp add: main_loop_def)
next
  case (Ret u s)
  with startup_unbound[of e0] while_true_quiet[of s cfg es] show ?thesis
    by (simp add: main_loop_def)
qed

lemma startup_reading:
  "startup (reading_env rb) module_globals
     = Ret () (main_loop_frame False
         [BmeInit True, ServoInit True, SetAngle SERVO_CLOSED_ANGLE True,
          SetAngle SERVO_CLOSED_ANGLE True] True True)"
  by (simp add: startup_def reading_env_def module_globals_def main_loop_frame_def
        initialize_bme280_def setup_servo_def close_collector_door_def emit_def)

lemma main_loop_reading:
  "main_loop cfg (reading_env rb) (e # es)
     = Uncaught UnboundLocalError (main_loop_frame False
         [BmeInit True, ServoInit True, SetAngle SERVO_CLOSED_ANGLE True,
          SetAngle SERVO_CLOSED_ANGLE True] True True)"
proof -
  let ?s = "main_loop_frame False
         [BmeInit True, ServoInit True, SetAngle SERVO_CLOSED_ANGLE True,
          SetAngle SERVO_CLOSED_ANGLE True] True True"
  have "while_true cfg (e # es) ?s = Uncaught UnboundLocalError ?s"
    by (rule while_true_sensor_set) (simp_all add: main_loop_frame_def)
  then show ?thesis
    unfolding main_loop_def startup_reading by (simp only: res.case)
qed

subsection \<open>The loop of meteorite_collector.py on valid readings\<close>

lemma loop_body_rpi_reading:
  "loop_body_rpi cfg (reading_env_rpi (r, ok)) (ready_rpi b evs) =
     Running (case hysteresis_rule cfg b r of
        None \<Rightarrow> ready_rpi b (evs @ [ReadAltitude, Sleep 30])
      | Some c \<Rightarrow> ready_rpi (if ok then c = Open else b) (evs @ [ReadAltitude, pulse_command c ok, Sleep 30]))"
  by (simp add: rpi_defs reading_env_rpi_def ready_rpi_def hysteresis_rule_def)

lemma while_true_rpi_reading:
  "door_commands (effects (state_of (while_true_rpi cfg (map reading_env_rpi rs) (ready_rpi b evs))))
     = door_commands evs @ rule_commands cfg pulse_command b rs"
proof (induction rs arbitrary: b evs)
  case Nil
  show ?case by (simp add: ready_rpi_def)
next
  case (Cons rb rs)
  obtain r ok where rb: "rb = (r, ok)" by (cases rb)
  show ?case
    unfolding rb
    by (cases "hysteresis_rule cfg b r"; cases ok)
       (auto simp: loop_body_rpi_reading Cons.IH[unfolded door_commands_def] door_commands_def split: command.splits)
qed

lemma by_rule_pre:
  "door_commands (effects s0) = door_commands (effects s) \<Longrightarrow>
   collector_is_open s0 = collector_is_open s \<Longrightarrow>
   by_rule cfg ev rd s0 s' \<Longrightarrow> by_rule cfg ev rd s s'"
  by (simp add: by_rule_def)

lemma by_rule_post:
  "door_commands (effects s'') = door_commands (effects s') \<Longrightarrow>
   by_rule cfg ev rd s s' \<Longrightarrow> by_rule cfg ev rd s s''"
  by (simp add: by_rule_def)

lemma open_collector_commands:
  "pwm s \<Longrightarrow>
   \<exists>ok. door_commands (effects (res_state (open_collector e s)))
          = door_commands (effects s) @ [pulse_command Open ok]"
  by (cases "pwm_write e")
     (auto simp: open_collector_def set_servo_angle_def emit_def door_commands_def)

lemma close_collector_commands:
  "pwm s \<Longrightarrow>
   \<exists>ok. door_commands (effects (res_state (close_collector e s)))
          = door_commands (effects s) @ [pulse_command Close ok]"
  by (cases "pwm_write e")
     (auto simp: close_collector_def set_servo_angle_def emit_def door_commands_def)

lemma evaluate_rpi_by_rule:
  assumes "pwm s"
  shows "by_rule cfg pulse_command (Returns (Some r)) s (res_state (evaluate_rpi cfg e r s))"
proof -
  consider (opens) "\<not> collector_is_open s" "r > ALTITUDE_OPEN cfg"
    | (closes) "collector_is_open s" "r < ALTITUDE_CLOSE cfg"
    | (idle) "\<not> (\<not> collector_is_open s \<and> r > ALTITUDE_OPEN cfg)"
             "\<not> (collector_is_open s \<and> r < ALTITUDE_CLOSE cfg)"
    by blast
  then show ?thesis
  proof cases
    case opens
    with open_collector_commands[OF assms, of e] show ?thesis
      by (auto simp: evaluate_rpi_def by_rule_def)
  next
    case closes
    with close_collector_commands[OF assms, of e] show ?thesis
      by (auto simp: evaluate_rpi_def by_rule_def)
  next
    case idle
    then have "evaluate_rpi cfg e r s = Ret () s" by (auto simp: evaluate_rpi_def)
    then show ?thesis by (simp add: by_rule_def)
  qed
qed

lemma try_body_rpi_by_rule:
  assumes "pwm s"
  shows "by_rule cfg pulse_command (altitude_read e) s (res_state (try_body_rpi cfg e s))"
proof (cases "altitude_read e")
  case (Raises x)
  then show ?thesis
    by (simp add: try_body_rpi_def by_rule_def emit_def door_commands_def)
next
  case (Returns v)
  show ?thesis
  proof (cases v)
    case None
    with Returns show ?thesis
      by (simp add: try_body_rpi_def by_rule_def emit_def door_commands_def time_sleep_def)
  next
    case (Some r)
    let ?s0 = "emit ReadAltitude s"
    have "by_rule cfg pulse_command (Returns (Some r)) ?s0 (res_state (evaluate_rpi cfg e r ?s0))"
      using assms by (intro evaluate_rpi_by_rule) (simp add: emit_def)
    then have "by_rule cfg pulse_command (Returns (Some r)) s (res_state (evaluate_rpi cfg e r ?s0))"
      by (rule by_rule_pre[rotated 2]) (simp_all add: emit_def door_commands_def)
    with Returns Some show ?thesis
      by (cases "evaluate_rpi cfg e r ?s0") (simp_all add: try_body_rpi_def)
  qed
qed

lemma loop_body_rpi_by_rule:
  assumes "pwm s"
  shows "by_rule cfg pulse_command (altitude_read e) s (state_of (loop_body_rpi cfg e s))"
proof -
  have b: "by_rule cfg pulse_command (altitude_read e) s (res_state (try_body_rpi cfg e s))"
    using assms by (rule try_body_rpi_by_rule)
  have "door_commands (effects (state_of (loop_body_rpi cfg e s)))
          = door_commands (effects (res_state (try_body_rpi cfg e s)))"
    by (cases "try_body_rpi cfg e s")
       (simp_all add: loop_body_rpi_def time_sleep_def emit_def door_commands_def
          split: bool.splits)
  then show ?thesis using b by (rule by_rule_post)
qed

lemma startup_rpi_reading:
  "\<exists>p. initialize_bme280_rpi (sensor_init (reading_env_rpi (r, True))) module_globals_rpi
         = Ret True p
       \<and> (\<exists>p1. setup_servo_rpi (reading_env_rpi (r, True)) p = Ret () p1)"
  by (simp add: initialize_bme280_rpi_def setup_servo_rpi_def setup_servo_body_def
        set_servo_angle_def reading_env_rpi_def module_globals_rpi_def time_sleep_def emit_def
        Let_def)

lemma main_rpi_reading:
  "main cfg (reading_env_rpi (r, True)) ps
     = guarded_loop cfg ps (ready_rpi False
         [BmeInit True, ServoInit True, ServoPulse (angle_to_duty_cycle SERVO_CLOSED_ANGLE) True,
          Sleep 1])"
  by (simp add: main_def initialize_bme280_rpi_def setup_servo_rpi_def setup_servo_body_def
        set_servo_angle_def reading_env_rpi_def module_globals_rpi_def time_sleep_def emit_def
        Let_def ready_rpi_def)

subsection \<open>The transition rule\<close>

text \<open>
  C1. In one iteration of the loop of \<open>meteorite_collector.py\<close>, in any environment, at
  most one servo command is issued: an Open command only if the flag says closed and the
  reading is strictly above the open threshold, a Close command only if the flag says open
  and the reading is strictly below the close threshold. Over every sequence of readings
  its commands are those of the rule of the specification, whether the commands succeed or
  fail. The loop of \<open>collector_arduino.py\<close> issues no servo command at all, in any
  environment: the commands of a whole run are those of the initialisation before the
  loop, so no command of the loop is outside the rule. With the shipped thresholds 20000
  and 18000, the readings 19000, 19500, 19999 from Closed give no command in either script.
\<close>

theorem hysteresis_transition_rule:
  "(pwm p \<longrightarrow>
      by_rule cfg pulse_command (altitude_read pe) p (state_of (loop_body_rpi cfg pe p)))
   \<and> door_commands
         (effects (state_of (while_true_rpi cfg (map reading_env_rpi rs) (ready_rpi b []))))
       = rule_commands cfg pulse_command b rs
   \<and> door_commands (effects (state_of (while_true_rpi shipped
         (map reading_env_rpi [(19000, True), (19500, True), (19999, True)])
         (ready_rpi False []))))
       = []
   \<and> door_commands (effects (state_of (main_loop cfg e0 es)))
       = door_commands (effects (res_state (startup e0 module_globals)))
   \<and> door_commands (effects (state_of (while_true shipped
         (map reading_env [(19000, True), (19500, True), (19999, True)])
         (main_loop_frame False [] True True))))
       = []"
proof -
  have band: "rule_commands shipped ev False [(19000, True), (19500, True), (19999, True)] = []"
    for ev
    by (simp add: hysteresis_rule_def shipped_def)
  have nil: "door_commands [] = []"
    by (simp add: door_commands_def)
  have frame: "local_collector_servo (main_loop_frame False [] True True) = Unbound"
    "effects (main_loop_frame False [] True True) = []"
    by (simp_all add: main_loop_frame_def)
  show ?thesis
    using loop_body_rpi_by_rule[of p cfg pe]
      while_true_rpi_reading[of cfg rs b "[]"]
      while_true_rpi_reading[of shipped "[(19000, True), (19500, True), (19999, True)]" False "[]"]
      main_loop_quiet[of cfg e0 es]
      while_true_quiet[OF frame(1), of shipped
        "map reading_env [(19000, True), (19500, True), (19999, True)]"]
    unfolding band nil append_Nil frame(2) by blast
qed

theorem hysteresis_transition_rule_witness:
  "pwm (ready_rpi True [])
   \<and> by_rule shipped pulse_command (altitude_read (reading_env_rpi (17000, True)))
        (ready_rpi True [])
        (state_of (loop_body_rpi shipped (reading_env_rpi (17000, True)) (ready_rpi True [])))
   \<and> door_commands (effects (state_of
        (main_loop shipped (reading_env (0, True)) [reading_env (21000, True)])))
       = [SetAngle SERVO_CLOSED_ANGLE True, SetAngle SERVO_CLOSED_ANGLE True]"
  using hysteresis_transition_rule
    [of "ready_rpi True []" shipped "reading_env_rpi (17000, True)" _ _
        "reading_env (0, True)" "[reading_env (21000, True)]"]
  by (simp add: ready_rpi_def startup_reading main_loop_frame_def door_commands_def)

subsection \<open>The duty cycle\<close>

text \<open>
  C10. For every real angle, \<open>angle_to_duty_cycle\<close> clamps the angle into [0, 180] and
  returns 2.5 + (clamped / 180) * 10; the result lies in [2.5, 12.5], it is 2.5 for
  angles below 0 and 12.5 for angles above 180.
\<close>

theorem angle_to_duty_cycle_clamped:
  "angle_to_duty_cycle a = 2.5 + (max 0 (min 180 a) / 180) * 10
   \<and> 2.5 \<le> angle_to_duty_cycle a \<and> angle_to_duty_cycle a \<le> 12.5
   \<and> (a < 0 \<longrightarrow> angle_to_duty_cycle a = 2.5)
   \<and> (a > 180 \<longrightarrow> angle_to_duty_cycle a = 12.5)"
  by (auto simp: angle_to_duty_cycle_def Let_def max_def min_def field_simps)

theorem angle_to_duty_cycle_clamped_witness:
  "(-5::real) < 0 \<and> angle_to_duty_cycle (-5) = 2.5
   \<and> (200::real) > 180 \<and> angle_to_duty_cycle 200 = 12.5"
  using angle_to_duty_cycle_clamped[of "-5"] angle_to_duty_cycle_clamped[of 200]
  by simp


subsection \<open>The flag follows the successful commands\<close>

lemmas tracks_simps =
  tracks_def last_commanded_def emit_def time_sleep_def SERVO_OPEN_ANGLE_def
  SERVO_CLOSED_ANGLE_def angle_to_duty_cycle_def is_Exception_def

lemma tracks_reinit_sensor: "tracks s \<Longrightarrow> tracks (res_state (reinit_sensor e s))"
  by (simp add: reinit_sensor_def initialize_bme280_def tracks_simps split: outcome.splits)

lemma tracks_loop_body:
  assumes "tracks s" and "local_collector_servo s = Unbound"
  shows "tracks (state_of (loop_body cfg e s))"
  using tracks_reinit_sensor[OF assms(1), of e]
  by (cases "reinit_sensor e s") (simp_all add: loop_body_unbound[OF assms(2)])

lemma tracks_while_true:
  "tracks s \<Longrightarrow> local_collector_servo s = Unbound \<Longrightarrow>
   tracks (state_of (while_true cfg es s))"
proof (induction es arbitrary: s)
  case Nil
  then show ?case by simp
next
  case (Cons e es)
  from tracks_loop_body[OF Cons.prems, of cfg e] loop_body_quiet(2)[OF Cons.prems(2), of cfg e]
    Cons.IH
  show ?case by (cases "loop_body cfg e s") simp_all
qed

lemma tracks_startup:
  "tracks (res_state (startup e module_globals))"
  by (simp add: startup_def initialize_bme280_def setup_servo_def close_collector_door_def
        module_globals_def tracks_simps split: outcome.splits)

lemma tracks_main_loop: "tracks (state_of (main_loop cfg e0 es))"
proof (cases "startup e0 module_globals")
  case (Exc x s)
  with tracks_startup[of e0] show ?thesis by (simp add: main_loop_def)
next
  case (Ret u s)
  with tracks_startup[of e0] startup_unbound[of e0] tracks_while_true[of s cfg es]
  show ?thesis
    by (simp add: main_loop_def)
qed

lemma tracks_open_collector:
  "tracks_rpi s \<Longrightarrow> tracks_rpi (res_state (open_collector e s))"
  by (simp add: tracks_rpi_def open_collector_def set_servo_angle_def tracks_simps Let_def
        split: outcome.splits)

lemma tracks_close_collector:
  "tracks_rpi s \<Longrightarrow> tracks_rpi (res_state (close_collector e s))"
  by (simp add: tracks_rpi_def close_collector_def set_servo_angle_def tracks_simps Let_def
        split: outcome.splits)

lemma tracks_evaluate_rpi:
  "tracks_rpi s \<Longrightarrow> tracks_rpi (res_state (evaluate_rpi cfg e r s))"
  by (simp add: evaluate_rpi_def tracks_open_collector tracks_close_collector)

lemma tracks_try_body_rpi:
  "tracks_rpi s \<Longrightarrow> tracks_rpi (res_state (try_body_rpi cfg e s))"
proof -
  assume t: "tracks_rpi s"
  then have t0: "tracks_rpi (emit ReadAltitude s)" by (simp add: tracks_rpi_def tracks_simps)
  show ?thesis
  proof (cases "altitude_read e")
    case (Raises x)
    with t0 show ?thesis by (simp add: try_body_rpi_def)
  next
    case (Returns v)
    show ?thesis
    proof (cases v)
      case None
      with Returns t0 show ?thesis
        by (simp add: try_body_rpi_def tracks_rpi_def tracks_simps)
    next
      case (Some r)
      with Returns tracks_evaluate_rpi[OF t0, of cfg e r] show ?thesis
        by (cases "evaluate_rpi cfg e r (emit ReadAltitude s)") (simp_all add: try_body_rpi_def)
    qed
  qed
qed

lemma tracks_loop_body_rpi:
  "tracks_rpi s \<Longrightarrow> tracks_rpi (state_of (loop_body_rpi cfg e s))"
proof -
  assume "tracks_rpi s"
  then have "tracks_rpi (res_state (try_body_rpi cfg e s))" by (rule tracks_try_body_rpi)
  then show ?thesis
    by (cases "try_body_rpi cfg e s")
       (simp_all add: loop_body_rpi_def tracks_rpi_def tracks_simps split: bool.splits)
qed

lemma tracks_while_true_rpi:
  "tracks_rpi s \<Longrightarrow> tracks_rpi (state_of (while_true_rpi cfg es s))"
proof (induction es arbitrary: s)
  case Nil
  then show ?case by simp
next
  case (Cons e es)
  from tracks_loop_body_rpi[OF Cons.prems, of cfg e] Cons.IH show ?case
    by (cases "loop_body_rpi cfg e s") simp_all
qed

lemma tracks_guarded_loop:
  "tracks_rpi s \<Longrightarrow> tracks (state_of (guarded_loop cfg es s))"
proof -
  assume "tracks_rpi s"
  then have "tracks_rpi (state_of (while_true_rpi cfg es s))" by (rule tracks_while_true_rpi)
  then show ?thesis
    by (cases "while_true_rpi cfg es s")
       (simp_all add: guarded_loop_def cleanup_def tracks_rpi_def tracks_simps)
qed

lemma tracks_setup_servo_rpi:
  "tracks s \<Longrightarrow> \<not> collector_is_open s \<Longrightarrow> tracks (res_state (setup_servo_rpi e s))"
  "setup_servo_rpi e s = Ret u s1 \<Longrightarrow> pwm s1"
  by (auto simp: setup_servo_rpi_def setup_servo_body_def set_servo_angle_def Let_def
        tracks_simps split: outcome.splits if_splits)

lemma tracks_main: "tracks (state_of (main cfg e0 es))"
proof -
  have t0: "tracks (res_state (initialize_bme280_rpi (sensor_init e0) module_globals_rpi))"
    by (simp add: initialize_bme280_rpi_def module_globals_rpi_def tracks_simps
          split: outcome.splits)
  show ?thesis
  proof (cases "initialize_bme280_rpi (sensor_init e0) module_globals_rpi")
    case (Exc x s)
    with t0 show ?thesis by (simp add: main_def)
  next
    case r0: (Ret ok s)
    with t0 have t: "tracks s" by simp
    have closed: "\<not> collector_is_open s"
      using r0 by (auto simp: initialize_bme280_rpi_def module_globals_rpi_def emit_def
            split: outcome.splits if_splits)
    show ?thesis
    proof (cases ok)
      case False
      with r0 t show ?thesis by (simp add: main_def)
    next
      case True
      show ?thesis
      proof (cases "setup_servo_rpi e0 s")
        case (Exc x s1)
        with r0 True tracks_setup_servo_rpi(1)[OF t closed, of e0] show ?thesis
          by (simp add: main_def)
      next
        case (Ret u s1)
        with tracks_setup_servo_rpi(1)[OF t closed, of e0] tracks_setup_servo_rpi(2)[of e0 s u s1]
        have "tracks_rpi s1"
          by (simp add: tracks_rpi_def)
        then have "tracks (state_of (guarded_loop cfg es s1))" by (rule tracks_guarded_loop)
        with r0 True Ret show ?thesis by (simp add: main_def)
      qed
    qed
  qed
qed

text \<open>
  C2. From the start of either script on, through the initialisation and any number of
  loop iterations in any environment, the flag \<open>collector_is_open\<close> equals the target of
  the last servo command that succeeded (and its initial value \<open>False\<close> if there was none):
  only a successful command changes it, and it changes it to exactly the commanded target.
\<close>

theorem actuator_state_follows_commands:
  "collector_is_open (state_of (main_loop cfg e0 es))
     = last_commanded False (effects (state_of (main_loop cfg e0 es)))
   \<and> collector_is_open (state_of (main cfg p0 ps))
     = last_commanded False (effects (state_of (main cfg p0 ps)))"
  using tracks_main_loop[of cfg e0 es] tracks_main[of cfg p0 ps]
  by (simp add: tracks_def)

theorem actuator_state_follows_commands_witness:
  "collector_is_open (state_of (main shipped (reading_env_rpi (0, True))
       (map reading_env_rpi [(21000, True), (17000, False)])))
     = last_commanded False
         [BmeInit True, ServoInit True, ServoPulse (angle_to_duty_cycle SERVO_CLOSED_ANGLE) True,
          Sleep 1,
          ReadAltitude, ServoPulse (angle_to_duty_cycle SERVO_OPEN_ANGLE) True, Sleep 30,
          ReadAltitude, ServoPulse (angle_to_duty_cycle SERVO_CLOSED_ANGLE) False, Sleep 30]
   \<and> collector_is_open (state_of (main shipped (reading_env_rpi (0, True))
       (map reading_env_rpi [(21000, True), (17000, False)])))
   \<and> collector_is_open (state_of (main_loop shipped close_fails_env [reading_env (21000, True)]))
     = last_commanded False
         [BmeInit True, ServoInit True, SetAngle SERVO_CLOSED_ANGLE True,
          SetAngle SERVO_CLOSED_ANGLE False]
   \<and> \<not> collector_is_open
         (state_of (main_loop shipped close_fails_env [reading_env (21000, True)]))"
proof -
  have run: "main shipped (reading_env_rpi (0, True))
       (map reading_env_rpi [(21000, True), (17000, False)])
     = Running (ready_rpi True
         [BmeInit True, ServoInit True, ServoPulse (angle_to_duty_cycle SERVO_CLOSED_ANGLE) True,
          Sleep 1,
          ReadAltitude, ServoPulse (angle_to_duty_cycle SERVO_OPEN_ANGLE) True, Sleep 30,
          ReadAltitude, ServoPulse (angle_to_duty_cycle SERVO_CLOSED_ANGLE) False, Sleep 30])"
    by (simp add: main_rpi_reading guarded_loop_def loop_body_rpi_reading hysteresis_rule_def
          shipped_def)
  have run': "main_loop shipped close_fails_env [reading_env (21000, True)]
     = Uncaught UnboundLocalError (main_loop_frame False
         [BmeInit True, ServoInit True, SetAngle SERVO_CLOSED_ANGLE True,
          SetAngle SERVO_CLOSED_ANGLE False] True True)"
    by (simp add: main_loop_def startup_def close_fails_env_def reading_env_def
          module_globals_def initialize_bme280_def setup_servo_def close_collector_door_def
          emit_def is_Exception_def loop_body_sensor_set main_loop_frame_def)
  show ?thesis
    using actuator_state_follows_commands
      [of shipped close_fails_env "[reading_env (21000, True)]" "reading_env_rpi (0, True)"
          "map reading_env_rpi [(21000, True), (17000, False)]"]
    unfolding run run' by (simp add: ready_rpi_def main_loop_frame_def)
qed

subsection \<open>What ends the loop\<close>

lemmas cancel_defs = no_cancellation_rpi_def returns_or_error_def is_Exception_def
  time_sleep_def

lemma loop_body_rpi_goes_on:
  "no_cancellation_rpi e \<Longrightarrow> \<exists>s1. loop_body_rpi cfg e s = Running s1"
  by (cases "altitude_read e"; cases "pwm_write e")
     (auto simp: cancel_defs loop_body_rpi_def try_body_rpi_def evaluate_rpi_def
        open_collector_def close_collector_def set_servo_angle_def Let_def
        split: option.splits)

lemma while_true_rpi_goes_on:
  "list_all no_cancellation_rpi es \<Longrightarrow> \<exists>s1. while_true_rpi cfg es s = Running s1"
proof (induction es arbitrary: s)
  case Nil
  show ?case by simp
next
  case (Cons e es)
  then obtain s1 where "loop_body_rpi cfg e s = Running s1"
    using loop_body_rpi_goes_on[of e cfg s] by auto
  with Cons show ?case by simp
qed

lemma loop_body_rpi_escape:
  "loop_body_rpi cfg e s = Uncaught x s' \<Longrightarrow> \<not> is_Exception x"
  "loop_body_rpi cfg e s \<noteq> Returned s'"
  by (auto simp: loop_body_rpi_def time_sleep_def is_Exception_def
        split: res.splits bool.splits if_splits)

lemma while_true_rpi_escape:
  "while_true_rpi cfg es s = Uncaught x s' \<Longrightarrow> \<not> is_Exception x"
  "while_true_rpi cfg es s \<noteq> Returned s'"
proof (induction es arbitrary: s)
  case Nil
  { case 1 then show ?case by simp }
  { case 2 show ?case by simp }
next
  case (Cons e es)
  { case 1 then show ?case
      using Cons.IH(1) loop_body_rpi_escape[of cfg e s]
      by (cases "loop_body_rpi cfg e s") auto }
  { case 2 show ?case
      using Cons.IH(2) loop_body_rpi_escape(2)[of cfg e s]
      by (cases "loop_body_rpi cfg e s") auto }
qed

lemma guarded_loop_goes_on:
  "list_all no_cancellation_rpi es \<Longrightarrow> \<exists>s1. guarded_loop cfg es s = Running s1"
  using while_true_rpi_goes_on[of es cfg s] by (auto simp: guarded_loop_def)

lemma guarded_loop_escape:
  "guarded_loop cfg es s = Uncaught x s' \<Longrightarrow> \<not> is_Exception x"
  "guarded_loop cfg es s = Returned s' \<Longrightarrow>
     \<exists>s1. while_true_rpi cfg es s = Uncaught KeyboardInterrupt s1"
  using while_true_rpi_escape[of cfg es s]
  by (cases "while_true_rpi cfg es s"; auto simp: guarded_loop_def split: if_splits)+

lemma no_cancellation_reading:
  "list_all no_cancellation_rpi (map reading_env_rpi rs)"
  by (induction rs) (simp_all add: cancel_defs reading_env_rpi_def)

text \<open>
  C3. In \<open>collector_arduino.py\<close> an iteration that starts with the sensor handle set, or
  whose sensor re-initialisation succeeds, ends the loop in every environment: line 131
  raises \<open>UnboundLocalError\<close>, an error of class \<open>Exception\<close>, outside the \<open>try\<close>. With
  devices that answer, the script is left in its first iteration. In
  \<open>meteorite_collector.py\<close> no error of class \<open>Exception\<close> ends the loop: it is left only
  by an exception outside that class, and \<open>main\<close> then returns after its cleanup only when
  that exception is \<open>KeyboardInterrupt\<close>.
\<close>

theorem loop_ended_by_own_error:
  "(local_collector_servo s = Unbound \<and> bme280_sensor s \<longrightarrow>
      loop_body cfg e s = Uncaught UnboundLocalError s)
   \<and> (local_collector_servo s = Unbound \<and> \<not> bme280_sensor s \<and> bme_init e = Returns ()
       \<and> bme_probe e = Returns () \<and> \<not> sleep_interrupted e 125 \<longrightarrow>
      (\<exists>s1. loop_body cfg e s = Uncaught UnboundLocalError s1))
   \<and> is_Exception UnboundLocalError
   \<and> main_loop cfg (reading_env rb) (e # es)
       = Uncaught UnboundLocalError (main_loop_frame False
           [BmeInit True, ServoInit True, SetAngle SERVO_CLOSED_ANGLE True,
            SetAngle SERVO_CLOSED_ANGLE True] True True)
   \<and> (list_all no_cancellation_rpi ps \<longrightarrow> (\<exists>p1. guarded_loop cfg ps p = Running p1))
   \<and> (\<forall>x p1. guarded_loop cfg ps p = Uncaught x p1 \<longrightarrow> \<not> is_Exception x)
   \<and> (\<forall>p1. guarded_loop cfg ps p = Returned p1 \<longrightarrow>
         (\<exists>p2. while_true_rpi cfg ps p = Uncaught KeyboardInterrupt p2))"
proof -
  have a: "local_collector_servo s = Unbound \<and> \<not> bme280_sensor s \<and> bme_init e = Returns ()
       \<and> bme_probe e = Returns () \<and> \<not> sleep_interrupted e 125 \<longrightarrow>
      (\<exists>s1. loop_body cfg e s = Uncaught UnboundLocalError s1)"
    by (simp add: loop_body_unbound reinit_sensor_def initialize_bme280_def time_sleep_def)
  have b: "is_Exception UnboundLocalError"
    by (simp add: is_Exception_def)
  show ?thesis
    using a b loop_body_sensor_set[of s cfg e] main_loop_reading[of cfg rb e es]
      guarded_loop_goes_on[of ps cfg p] guarded_loop_escape[of cfg ps p]
    by blast
qed

theorem loop_ended_by_own_error_witness:
  "local_collector_servo (main_loop_frame False [] True True) = Unbound
   \<and> bme280_sensor (main_loop_frame False [] True True)
   \<and> loop_body shipped (reading_env (19000, True)) (main_loop_frame False [] True True)
       = Uncaught UnboundLocalError (main_loop_frame False [] True True)
   \<and> list_all no_cancellation_rpi [failing_env_rpi, reading_env_rpi (21000, False)]
   \<and> (\<exists>p1. guarded_loop shipped [failing_env_rpi, reading_env_rpi (21000, False)]
          (ready_rpi False []) = Running p1)"
proof -
  have b: "list_all no_cancellation_rpi [failing_env_rpi, reading_env_rpi (21000, False)]"
    by (simp add: cancel_defs failing_env_rpi_def reading_env_rpi_def)
  have c: "local_collector_servo (main_loop_frame False [] True True) = Unbound"
    "bme280_sensor (main_loop_frame False [] True True)"
    by (simp_all add: main_loop_frame_def)
  show ?thesis
    using b c
      loop_ended_by_own_error
        [of "main_loop_frame False [] True True" shipped "reading_env (19000, True)" _ _
            "[failing_env_rpi, reading_env_rpi (21000, False)]" "ready_rpi False []"]
    by blast
qed

subsection \<open>The unexpected-error handler\<close>

text \<open>
  C4. In \<open>collector_arduino.py\<close> with devices that answer at the start, a sensor whose
  read would raise an error outside \<open>RuntimeError\<close> is never read: the first iteration is
  left at line 131 with \<open>UnboundLocalError\<close>, so the handler of lines 169-175 does not run.
  Taken by itself, that handler unsets the global sensor handle, binds the local name
  \<open>collector_servo\<close> of \<open>main_loop\<close> and sleeps 10 seconds: the global servo handle and the
  flag keep their values.
\<close>

theorem unexpected_error_handler_unreached:
  "main_loop cfg (reading_env rb) (unexpected_error_env # es)
     = Uncaught UnboundLocalError (main_loop_frame False
         [BmeInit True, ServoInit True, SetAngle SERVO_CLOSED_ANGLE True,
          SetAngle SERVO_CLOSED_ANGLE True] True True)
   \<and> (altitude e = Raises x \<and> is_Exception x \<and> x \<noteq> RuntimeError
       \<and> \<not> sleep_interrupted e 175 \<longrightarrow>
      try_except cfg e s
        = Ret False (s\<lparr>effects := effects s @ [ReadAltitude, Sleep 10],
            bme280_sensor := False, local_collector_servo := Bound False\<rparr>))"
  by (simp add: main_loop_reading try_except_def try_body_def time_sleep_def emit_def)

theorem unexpected_error_handler_unreached_witness:
  "altitude unexpected_error_env = Raises OtherException \<and> is_Exception OtherException
   \<and> OtherException \<noteq> RuntimeError \<and> \<not> sleep_interrupted unexpected_error_env 175
   \<and> try_except shipped unexpected_error_env (main_loop_frame False [] True True)
      = Ret False
        \<lparr>collector_is_open = False, effects = [ReadAltitude, Sleep 10], bme280_sensor = False,
         collector_servo = True, local_collector_servo = Bound False\<rparr>"
  using unexpected_error_handler_unreached
    [of shipped _ _ unexpected_error_env OtherException "main_loop_frame False [] True True"]
  by (simp add: unexpected_error_env_def reading_env_def is_Exception_def main_loop_frame_def)

subsection \<open>A servo command that fails\<close>

text \<open>
  C5 as stated fails: after a Close command of \<open>collector_arduino.py\<close> that raised, and
  after an Open command of \<open>meteorite_collector.py\<close> that raised, the servo handle is still
  set; nothing marks the servo as faulted.
\<close>

theorem failed_command_leaves_servo_ready:
  "startup close_fails_env module_globals
     = Ret () (main_loop_frame False
         [BmeInit True, ServoInit True, SetAngle SERVO_CLOSED_ANGLE True,
          SetAngle SERVO_CLOSED_ANGLE False] True True)
   \<and> collector_servo (main_loop_frame False
         [BmeInit True, ServoInit True, SetAngle SERVO_CLOSED_ANGLE True,
          SetAngle SERVO_CLOSED_ANGLE False] True True)
   \<and> loop_body_rpi shipped (reading_env_rpi (21000, False)) (ready_rpi False [])
     = Running (ready_rpi False [ReadAltitude, pulse_command Open False, Sleep 30])
   \<and> pwm (ready_rpi False [ReadAltitude, pulse_command Open False, Sleep 30])"
  by (simp add: startup_def close_fails_env_def reading_env_def module_globals_def
        initialize_bme280_def setup_servo_def close_collector_door_def main_loop_frame_def
        rpi_defs reading_env_rpi_def ready_rpi_def shipped_def)

text \<open>
  C5, amended. Whenever a servo command raises an error of class \<open>Exception\<close>, the flag is
  left unchanged and the servo handle stays set: \<open>open_collector_door\<close> and
  \<open>close_collector_door\<close> of \<open>collector_arduino.py\<close> change nothing but the effects, and an
  iteration of \<open>meteorite_collector.py\<close> whose command fails keeps flag and PWM handle and
  goes on to the poll sleep. The failure is only reported.
\<close>

theorem failed_command_keeps_flag_and_handle:
  "(collector_servo s \<and> is_Exception x \<longrightarrow>
      open_collector_door (Raises x) s
        = Ret () (s\<lparr>effects := effects s @ [SetAngle SERVO_OPEN_ANGLE False]\<rparr>)
      \<and> close_collector_door (Raises x) s
        = Ret () (s\<lparr>effects := effects s @ [SetAngle SERVO_CLOSED_ANGLE False]\<rparr>))
   \<and> (altitude_read pe = Returns (Some r) \<and> hysteresis_rule cfg b r = Some c
      \<and> pwm_write pe = Raises x \<and> is_Exception x \<and> \<not> ctrl_c pe 142 \<longrightarrow>
      loop_body_rpi cfg pe (ready_rpi b evs)
        = Running (ready_rpi b (evs @ [ReadAltitude, pulse_command c False, Sleep 30])))"
  by (cases c) (auto simp: open_collector_door_def close_collector_door_def rpi_defs
        ready_rpi_def hysteresis_rule_def split: if_splits)

theorem failed_command_keeps_flag_and_handle_witness:
  "collector_servo (main_loop_frame True [] True True) \<and> is_Exception OtherException
   \<and> open_collector_door (Raises OtherException) (main_loop_frame True [] True True)
       = Ret () (main_loop_frame True [SetAngle SERVO_OPEN_ANGLE False] True True)
   \<and> close_collector_door (Raises OtherException) (main_loop_frame True [] True True)
       = Ret () (main_loop_frame True [SetAngle SERVO_CLOSED_ANGLE False] True True)
   \<and> altitude_read (reading_env_rpi (21000, False)) = Returns (Some 21000)
   \<and> hysteresis_rule shipped False 21000 = Some Open
   \<and> pwm_write (reading_env_rpi (21000, False)) = Raises OtherException
   \<and> \<not> ctrl_c (reading_env_rpi (21000, False)) 142
   \<and> loop_body_rpi shipped (reading_env_rpi (21000, False)) (ready_rpi False [])
       = Running (ready_rpi False [ReadAltitude, pulse_command Open False, Sleep 30])"
  using failed_command_keeps_flag_and_handle
    [of "main_loop_frame True [] True True" OtherException "reading_env_rpi (21000, False)"
        21000 shipped False Open "[]"]
  by (simp add: reading_env_rpi_def is_Exception_def hysteresis_rule_def shipped_def
        main_loop_frame_def)

subsection \<open>Re-initialisation and its delays\<close>




subsection \<open>A reading of None\<close>

text \<open>
  C7. When the altitude read of \<open>meteorite_collector.py\<close> returns \<open>None\<close>, the iteration
  changes neither the flag nor the PWM handle, issues no command, sleeps 10 seconds and
  starts the next iteration without the poll sleep. An iteration with a reading inside the
  band sleeps the poll interval of 30 seconds instead. So the delay after \<open>None\<close> is the
  shorter one.
\<close>

theorem indeterminate_reading_delay:
  "(altitude_read pe = Returns None \<and> \<not> ctrl_c pe 124 \<longrightarrow>
      loop_body_rpi cfg pe (ready_rpi b evs)
        = Running (ready_rpi b (evs @ [ReadAltitude, Sleep 10])))
   \<and> (altitude_read pe = Returns (Some r) \<and> hysteresis_rule cfg b r = None
       \<and> \<not> ctrl_c pe 142 \<longrightarrow>
      loop_body_rpi cfg pe (ready_rpi b evs)
        = Running (ready_rpi b (evs @ [ReadAltitude, Sleep 30])))"
  by (auto simp: rpi_defs ready_rpi_def hysteresis_rule_def split: if_splits)

theorem indeterminate_reading_delay_witness:
  "altitude_read none_env_rpi = Returns None \<and> \<not> ctrl_c none_env_rpi 124
   \<and> loop_body_rpi shipped none_env_rpi (ready_rpi True [])
       = Running (ready_rpi True [ReadAltitude, Sleep 10])
   \<and> altitude_read (reading_env_rpi (19000, True)) = Returns (Some 19000)
   \<and> hysteresis_rule shipped True 19000 = None
   \<and> \<not> ctrl_c (reading_env_rpi (19000, True)) 142
   \<and> loop_body_rpi shipped (reading_env_rpi (19000, True)) (ready_rpi True [])
       = Running (ready_rpi True [ReadAltitude, Sleep 30])
   \<and> slept [ReadAltitude, Sleep 10] < slept [ReadAltitude, Sleep 30]"
  using indeterminate_reading_delay[of none_env_rpi shipped True "[]"]
    indeterminate_reading_delay[of "reading_env_rpi (19000, True)" shipped True "[]" 19000]
  by (simp add: none_env_rpi_def reading_env_rpi_def hysteresis_rule_def shipped_def)

subsection \<open>A transient sensor error\<close>

text \<open>
  C8. In \<open>collector_arduino.py\<close> with devices that answer at the start, a sensor whose
  first read would raise \<open>RuntimeError\<close> and whose later reads would return 18500 is never
  read: the first iteration is left at line 131 with \<open>UnboundLocalError\<close>, so neither the
  handler of lines 162-168 nor a re-initialisation runs. Taken by itself, that handler
  sleeps 5 seconds and unsets the sensor handle, and leaves flag and servo handle alone.
\<close>

theorem transient_error_handler_unreached:
  "main_loop shipped (reading_env (0, True))
       (transient_error_env # map reading_env (replicate n (18500, True)))
     = Uncaught UnboundLocalError (main_loop_frame False
         [BmeInit True, ServoInit True, SetAngle SERVO_CLOSED_ANGLE True,
          SetAngle SERVO_CLOSED_ANGLE True] True True)
   \<and> (altitude e = Raises RuntimeError \<and> \<not> sleep_interrupted e 166 \<longrightarrow>
      try_except cfg e s
        = Ret False (s\<lparr>effects := effects s @ [ReadAltitude, Sleep 5],
            bme280_sensor := False\<rparr>))"
  by (simp add: main_loop_reading try_except_def try_body_def time_sleep_def emit_def)

theorem transient_error_handler_unreached_witness:
  "altitude transient_error_env = Raises RuntimeError
   \<and> \<not> sleep_interrupted transient_error_env 166
   \<and> try_except shipped transient_error_env (main_loop_frame False [] True True)
      = Ret False (main_loop_frame False [ReadAltitude, Sleep 5] False True)"
  using transient_error_handler_unreached
    [of _ transient_error_env shipped "main_loop_frame False [] True True"]
  by (simp add: transient_error_env_def reading_env_def main_loop_frame_def)

subsection \<open>The thresholds\<close>

text \<open>
  C9 as stated fails: started with a close threshold above the open threshold,
  \<open>meteorite_collector.py\<close> is not stopped; it runs, and a constant reading of 19000 opens
  and closes the door in turn.
\<close>

theorem reversed_thresholds_run:
  "ALTITUDE_CLOSE reversed_thresholds \<ge> ALTITUDE_OPEN reversed_thresholds
   \<and> main reversed_thresholds (reading_env_rpi (0, True))
        (map reading_env_rpi [(19000, True), (19000, True)])
      = Running (ready_rpi False
          [BmeInit True, ServoInit True,
           ServoPulse (angle_to_duty_cycle SERVO_CLOSED_ANGLE) True, Sleep 1,
           ReadAltitude, ServoPulse (angle_to_duty_cycle SERVO_OPEN_ANGLE) True, Sleep 30,
           ReadAltitude, ServoPulse (angle_to_duty_cycle SERVO_CLOSED_ANGLE) True, Sleep 30])"
  by (simp add: main_rpi_reading guarded_loop_def loop_body_rpi_reading hysteresis_rule_def
        reversed_thresholds_def)

text \<open>
  C9, amended. The thresholds are the module constants 20000 and 18000, for which
  \<open>ALTITUDE_CLOSE < ALTITUDE_OPEN\<close> holds. Neither script validates them. For every pair of
  thresholds \<open>meteorite_collector.py\<close> runs its loop when its devices answer, and its
  initialisation is the same; \<open>collector_arduino.py\<close> behaves the same for every pair, in
  every environment.
\<close>

theorem thresholds_not_validated:
  "ALTITUDE_CLOSE shipped < ALTITUDE_OPEN shipped
   \<and> main cfg p0 [] = main shipped p0 []
   \<and> (\<exists>p. main cfg (reading_env_rpi (r, True)) (map reading_env_rpi rs) = Running p)
   \<and> main_loop cfg e0 es = main_loop shipped e0 es"
proof -
  have a: "\<exists>p. main cfg (reading_env_rpi (r, True)) (map reading_env_rpi rs) = Running p"
    using guarded_loop_goes_on[OF no_cancellation_reading, of cfg rs]
    by (simp add: main_rpi_reading)
  have b: "main cfg p0 [] = main shipped p0 []"
  proof -
    have "guarded_loop c [] p = Running p" for c p
      by (simp add: guarded_loop_def)
    then show ?thesis by (simp add: main_def split: res.splits bool.splits)
  qed
  have loop: "local_collector_servo s = Unbound \<Longrightarrow>
      while_true cfg es s = while_true shipped es s" for s
  proof (induction es arbitrary: s)
    case Nil
    show ?case by simp
  next
    case (Cons e es)
    have same: "loop_body cfg e s = loop_body shipped e s"
      by (simp add: loop_body_unbound[OF Cons.prems])
    show ?case
    proof (cases "loop_body shipped e s")
      case (Running s1)
      with loop_body_quiet(2)[OF Cons.prems, of shipped e]
      have "local_collector_servo s1 = Unbound" by simp
      with Running same Cons.IH[of s1] show ?thesis by simp
    qed (simp_all add: same)
  qed
  have c: "main_loop cfg e0 es = main_loop shipped e0 es"
  proof (cases "startup e0 module_globals")
    case (Exc x s)
    then show ?thesis by (simp add: main_loop_def)
  next
    case (Ret u s)
    with startup_unbound[of e0] loop[of s] show ?thesis by (simp add: main_loop_def)
  qed
  show ?thesis using a b c by (simp add: shipped_def)
qed

theorem thresholds_not_validated_witness:
  "\<exists>p. main reversed_thresholds (reading_env_rpi (0, True)) (map reading_env_rpi [(19000, True)])
      = Running p"
  using thresholds_not_validated[of reversed_thresholds _ 0 "[(19000, True)]"] by blast

end
